theory Spec2Isabelle
  imports Main "HOL-Library.Sublist"
begin

section \<open>Data model of the node (src/node/server.js)\<close>

text \<open>
  Addresses, public keys, hashes and signatures are hex strings in the source.
  Amounts, gas and balances are decimal strings that the source converts with
  \<^verbatim>\<open>BigInt(...)\<close>; they are integers here.
\<close>

type_synonym address = string
type_synonym pubkey = string
type_synonym keypair = string

text \<open>
  \<^verbatim>\<open>tx.additionalData.contractGas || 0\<close>: the field may be absent, so it is optional.
\<close>

record additionalData =
  contractGas :: "int option"

record transaction =
  recipient :: address
  amount :: int
  gas :: int
  additionalData :: additionalData
  timestamp :: int
  signature :: "string option"

record block =
  blockNumber :: int
  blockTimestamp :: int
  transactions :: "transaction list"
  blockDifficulty :: int
  parentHash :: string
  hash :: string

record chainInfo =
  transactionPool :: "transaction list"
  latestBlock :: block
  latestSyncBlock :: "block option"
  difficulty :: int

record account =
  balance :: int
  body :: string
  storage :: "(string \<times> string) list"

text \<open>
  \<^verbatim>\<open>stateDB\<close> is read by key only (\<^verbatim>\<open>keys().all().includes(a)\<close>, \<^verbatim>\<open>get(a)\<close>): a map.
  \<^verbatim>\<open>blockDB\<close> is also enumerated (\<^verbatim>\<open>keys().all()\<close>): an association list with one
  entry per key. Only the number of keys and the maximum of their values are read
  from the enumeration, so the order of the entries is not significant.
\<close>

type_synonym stateDB = "address \<rightharpoonup> account"
type_synonym blockDB = "(string \<times> block) list"

text \<open>
  The functions and constants that server.js imports from modules of the repository
  that are not part of the sources at hand (\<^verbatim>\<open>core/transaction\<close>,
  \<^verbatim>\<open>core/state\<close>, \<^verbatim>\<open>consensus/consensus\<close>, \<^verbatim>\<open>core/genesis\<close>, \<^verbatim>\<open>config.json\<close>)
  are parameters of the model, collected in one record.
  \<^verbatim>\<open>updateDifficulty(block, chainInfo, blockDB)\<close> writes \<^verbatim>\<open>chainInfo.difficulty\<close>;
  the parameter returns the value it writes. \<^verbatim>\<open>changeState(block, stateDB, enableLogging)\<close>
  writes the state store and \<^verbatim>\<open>addTransaction(tx, pool, stateDB)\<close> the pool array it is
  given; the parameters return the new store and the new pool.
\<close>

record env =
  SHA256 :: "string \<Rightarrow> string"
  getPubKey :: "transaction \<Rightarrow> pubkey"
  isValid :: "transaction \<Rightarrow> stateDB \<Rightarrow> bool"
  sign :: "transaction \<Rightarrow> keypair \<Rightarrow> string"
  verifyBlock :: "block \<Rightarrow> chainInfo \<Rightarrow> stateDB \<Rightarrow> bool"
  updateDifficulty :: "block \<Rightarrow> chainInfo \<Rightarrow> blockDB \<Rightarrow> int"
  changeState :: "block \<Rightarrow> stateDB \<Rightarrow> bool \<Rightarrow> stateDB"
  addTransaction :: "transaction \<Rightarrow> transaction list \<Rightarrow> stateDB \<Rightarrow> transaction list"
  generateGenesisBlock :: block
  BLOCK_REWARD :: int
  BLOCK_GAS_LIMIT :: int
  defaultGas :: int

definition MINT_PRIVATE_ADDRESS :: string where
  "MINT_PRIVATE_ADDRESS =
     ''0000000000000000000000000000000000000000000000000000000000000001''"

definition MINT_KEY_PAIR :: keypair where
  "MINT_KEY_PAIR = MINT_PRIVATE_ADDRESS"

text \<open>\<^verbatim>\<open>BigInt(tx.additionalData.contractGas || 0)\<close>\<close>

definition contractGasOf :: "transaction \<Rightarrow> int" where
  "contractGasOf tx = (case contractGas (additionalData tx) of None \<Rightarrow> 0 | Some g \<Rightarrow> g)"

text \<open>\<^verbatim>\<open>SHA256(Transaction.getPubKey(tx))\<close>: the sender's address.\<close>

definition senderAddress :: "env \<Rightarrow> transaction \<Rightarrow> address" where
  "senderAddress e tx = SHA256 e (getPubKey e tx)"

text \<open>
  Modelled from the spec: the constructor \<^verbatim>\<open>new Transaction(recipient, amount)\<close> and
  \<^verbatim>\<open>Transaction.sign(tx, keyPair)\<close> of \<^verbatim>\<open>core/transaction\<close>, which is not among the
  sources. The constructor fills the fields of the data model, the two given ones from
  its arguments; signing stores the signature of the key pair over the other fields.
\<close>

definition Transaction :: "env \<Rightarrow> address \<Rightarrow> int \<Rightarrow> int \<Rightarrow> transaction" where
  "Transaction e r a created =
     \<lparr>recipient = r, amount = a, gas = defaultGas e,
      additionalData = \<lparr>contractGas = None\<rparr>, timestamp = created, signature = None\<rparr>"

definition Transaction_sign :: "env \<Rightarrow> transaction \<Rightarrow> keypair \<Rightarrow> transaction" where
  "Transaction_sign e tx kp = tx\<lparr>signature := Some (sign e tx kp)\<rparr>"

text \<open>Modelled from the spec: the constructor of \<^verbatim>\<open>core/block\<close>; the worker fills the hash.\<close>

definition Block :: "int \<Rightarrow> int \<Rightarrow> transaction list \<Rightarrow> int \<Rightarrow> string \<Rightarrow> block" where
  "Block n ts txs d ph =
     \<lparr>blockNumber = n, blockTimestamp = ts, transactions = txs, blockDifficulty = d,
      parentHash = ph, hash = []\<rparr>"

section \<open>The mining coordinator: \<^verbatim>\<open>mine\<close>\<close>

text \<open>
  The selection loop of \<^verbatim>\<open>mine\<close>, over the accumulators \<^verbatim>\<open>transactionsToMine\<close>,
  \<^verbatim>\<open>totalContractGas\<close> and \<^verbatim>\<open>totalTxGas\<close>:
  \<^verbatim>\<open>
  for (const tx of chainInfo.transactionPool) {
      if (totalContractGas + BigInt(tx.additionalData.contractGas || 0) >= BigInt(BLOCK_GAS_LIMIT)) break;
      transactionsToMine.push(tx);
      totalContractGas += BigInt(tx.additionalData.contractGas || 0);
      totalTxGas += BigInt(tx.gas) + BigInt(tx.additionalData.contractGas || 0);
  }
  \<close>
\<close>

fun mineLoop :: "env \<Rightarrow> transaction list \<Rightarrow> transaction list \<times> int \<times> int
    \<Rightarrow> transaction list \<times> int \<times> int" where
  "mineLoop e [] acc = acc"
| "mineLoop e (tx # pool) (transactionsToMine, totalContractGas, totalTxGas) =
     (if totalContractGas + contractGasOf tx \<ge> BLOCK_GAS_LIMIT e
      then (transactionsToMine, totalContractGas, totalTxGas)
      else mineLoop e pool
             (transactionsToMine @ [tx],
              totalContractGas + contractGasOf tx,
              totalTxGas + (gas tx + contractGasOf tx)))"

definition transactionsToMine :: "env \<Rightarrow> transaction list \<Rightarrow> transaction list" where
  "transactionsToMine e pool = fst (mineLoop e pool ([], 0, 0))"

definition totalTxGas :: "env \<Rightarrow> transaction list \<Rightarrow> int" where
  "totalTxGas e pool = snd (snd (mineLoop e pool ([], 0, 0)))"

text \<open>
  The two readings of the clock in \<^verbatim>\<open>mine\<close> (the constructor's time stamp of the reward
  transaction and \<^verbatim>\<open>Date.now()\<close> of the block) are the arguments \<open>created\<close> and \<open>now\<close>.
\<close>

definition rewardTransaction :: "env \<Rightarrow> pubkey \<Rightarrow> int \<Rightarrow> transaction list \<Rightarrow> transaction" where
  "rewardTransaction e publicKey created pool =
     Transaction_sign e
       (Transaction e (SHA256 e publicKey) (BLOCK_REWARD e + totalTxGas e pool) created)
       MINT_KEY_PAIR"

text \<open>The candidate block that \<^verbatim>\<open>mine\<close> sends to the worker.\<close>

definition candidateBlock :: "env \<Rightarrow> pubkey \<Rightarrow> int \<Rightarrow> int \<Rightarrow> chainInfo \<Rightarrow> block" where
  "candidateBlock e publicKey created now ci =
     Block (blockNumber (latestBlock ci) + 1) now
       (rewardTransaction e publicKey created (transactionPool ci)
          # transactionsToMine e (transactionPool ci))
       (difficulty ci) (hash (latestBlock ci))"

section \<open>JavaScript numbers and block-store keys\<close>

text \<open>
  \<^verbatim>\<open>Math.max\<close> of no argument is \<^verbatim>\<open>-Infinity\<close> and \<^verbatim>\<open>parseInt\<close> of a string without
  digits is \<^verbatim>\<open>NaN\<close>, so the numbers computed from the keys of the block store are
  integers extended by these two values. Every comparison with \<^verbatim>\<open>NaN\<close> is false.
\<close>

datatype number = Num int | NaN | NegInfinity

fun numMax :: "number \<Rightarrow> number \<Rightarrow> number" where
  "numMax NaN y = NaN"
| "numMax x NaN = NaN"
| "numMax NegInfinity y = y"
| "numMax x NegInfinity = x"
| "numMax (Num a) (Num b) = Num (max a b)"

definition Math_max :: "number list \<Rightarrow> number" where
  "Math_max xs = foldl numMax NegInfinity xs"

fun numGreater :: "number \<Rightarrow> number \<Rightarrow> bool" where
  "numGreater (Num a) (Num b) = (a > b)"
| "numGreater (Num a) NegInfinity = True"
| "numGreater x y = False"

fun numLessEq :: "number \<Rightarrow> number \<Rightarrow> bool" where
  "numLessEq (Num a) (Num b) = (a \<le> b)"
| "numLessEq NegInfinity (Num b) = True"
| "numLessEq NegInfinity NegInfinity = True"
| "numLessEq x y = False"

fun numPlus1 :: "number \<Rightarrow> number" where
  "numPlus1 (Num a) = Num (a + 1)"
| "numPlus1 x = x"

text \<open>\<^verbatim>\<open>n.toString()\<close> in base ten.\<close>

definition digitChar :: "nat \<Rightarrow> char" where
  "digitChar d = ''0123456789'' ! d"

fun natToString :: "nat \<Rightarrow> string" where
  "natToString n =
     (if n < 10 then [digitChar n] else natToString (n div 10) @ [digitChar (n mod 10)])"

declare natToString.simps [simp del]

definition toString :: "int \<Rightarrow> string" where
  "toString i = (if i < 0 then CHR ''-'' # natToString (nat (- i)) else natToString (nat i))"

fun numToString :: "number \<Rightarrow> string" where
  "numToString (Num i) = toString i"
| "numToString NaN = ''NaN''"
| "numToString NegInfinity = ''-Infinity''"

text \<open>
  \<^verbatim>\<open>parseInt(key)\<close> without a radix: leading white space is skipped, a sign is read,
  a prefix \<^verbatim>\<open>0x\<close> selects base sixteen, and the longest run of digits of the base is the
  value; without a digit the result is \<^verbatim>\<open>NaN\<close>.
\<close>

definition isWhiteSpace :: "char \<Rightarrow> bool" where
  "isWhiteSpace c = (c \<in> set [CHR '' '', CHR 0x09, CHR 0x0A, CHR 0x0B, CHR 0x0C, CHR 0x0D])"

definition digitValue :: "char \<Rightarrow> nat option" where
  "digitValue c =
     (let n = (of_char c :: nat) in
      if 48 \<le> n \<and> n \<le> 57 then Some (n - 48)
      else if 97 \<le> n \<and> n \<le> 122 then Some (n - 87)
      else if 65 \<le> n \<and> n \<le> 90 then Some (n - 55)
      else None)"

definition isDigitOf :: "nat \<Rightarrow> char \<Rightarrow> bool" where
  "isDigitOf radix c = (case digitValue c of None \<Rightarrow> False | Some d \<Rightarrow> d < radix)"

definition digitsValue :: "nat \<Rightarrow> string \<Rightarrow> nat" where
  "digitsValue radix cs =
     foldl (\<lambda>acc c. case digitValue c of None \<Rightarrow> acc | Some d \<Rightarrow> acc * radix + d) 0 cs"

definition parseInt :: "string \<Rightarrow> number" where
  "parseInt s =
     (let s1 = dropWhile isWhiteSpace s;
          negative = (take 1 s1 = ''-'');
          s2 = (if take 1 s1 = ''-'' \<or> take 1 s1 = ''+'' then drop 1 s1 else s1);
          hex = (take 2 s2 = ''0x'' \<or> take 2 s2 = ''0X'');
          radix = (if hex then 16 else 10);
          s3 = (if hex then drop 2 s2 else s2);
          ds = takeWhile (isDigitOf radix) s3
      in if ds = [] then NaN
         else Num ((if negative then - 1 else 1) * int (digitsValue radix ds)))"

text \<open>The block store: \<^verbatim>\<open>put\<close> replaces the entry of the key or adds one.\<close>

definition blockDB_keys :: "blockDB \<Rightarrow> string list" where
  "blockDB_keys db = map fst db"

fun blockDB_put :: "string \<Rightarrow> block \<Rightarrow> blockDB \<Rightarrow> blockDB" where
  "blockDB_put k v [] = [(k, v)]"
| "blockDB_put k v ((k', v') # db) =
     (if k' = k then (k, v) # db else (k', v') # blockDB_put k v db)"

definition blockDB_get :: "blockDB \<Rightarrow> string \<Rightarrow> block option" where
  "blockDB_get db k = map_of db k"

text \<open>\<^verbatim>\<open>Math.max(...(await blockDB.keys().all()).map(key => parseInt(key)))\<close>\<close>

definition maxBlockNumber :: "blockDB \<Rightarrow> number" where
  "maxBlockNumber db = Math_max (map parseInt (blockDB_keys db))"

section \<open>The node: peers, messages and effects\<close>

text \<open>
  An entry of \<^verbatim>\<open>opened\<close> is \<^verbatim>\<open>{ socket, address }\<close>; a socket is identified by a number.
\<close>

record peer =
  socket :: nat
  address :: address

text \<open>
  The messages of \<^verbatim>\<open>message-types\<close> with their payloads (\<^verbatim>\<open>_message.data\<close>). The block
  number of a block request is the requester's \<^verbatim>\<open>currentSyncBlock\<close>.
\<close>

datatype message =
    NEW_BLOCK block
  | CREATE_TRANSACTION transaction
  | REQUEST_BLOCK number address
  | SEND_BLOCK block
  | HANDSHAKE address

datatype reply = RespondSuccess string | RespondError nat string

text \<open>
  What the node does to the outside, in the order in which it does it: a message sent
  on a socket, a mining job sent to a worker process, a connection opened with
  \<^verbatim>\<open>new WS(address)\<close>, the reply to an RPC request, and the call of \<^verbatim>\<open>addTransaction\<close>.
\<close>

datatype effect =
    Send nat message
  | WorkerSend nat block int
  | Dial address
  | Reply reply
  | AddTransaction transaction

datatype error = TypeError | NotFound

text \<open>The constants of \<^verbatim>\<open>startServer\<close>, after the defaults have been applied.\<close>

record options =
  PEERS :: "address list"
  MY_ADDRESS :: address
  ENABLE_MINING :: bool
  ENABLE_LOGGING :: bool
  ENABLE_RPC :: bool
  options_ENABLE_CHAIN_REQUEST :: bool
  publicKey :: pubkey

text \<open>
  The mutable state of the module and of \<^verbatim>\<open>startServer\<close>. \<^verbatim>\<open>worker\<close> counts the worker
  processes: \<^verbatim>\<open>worker.kill(); worker = fork(...)\<close> moves to the next one. \<^verbatim>\<open>pending\<close>
  holds the request loops that are suspended in their delay, oldest first, each with
  the position in \<^verbatim>\<open>opened\<close> at which it continues.
\<close>

record node =
  opened :: "peer list"
  connected :: "address list"
  chainInfo :: chainInfo
  stateDB :: stateDB
  blockDB :: blockDB
  ENABLE_CHAIN_REQUEST :: bool
  currentSyncBlock :: number
  mined :: bool
  worker :: nat
  effects :: "effect list"
  pending :: "nat list"

text \<open>
  Modelled from the spec: \<^verbatim>\<open>sendMessage(message, nodes)\<close> of \<^verbatim>\<open>node/message\<close>, which is
  not among the sources, sends the message on the socket of every given peer.
\<close>

definition sendMessage :: "message \<Rightarrow> peer list \<Rightarrow> node \<Rightarrow> node" where
  "sendMessage m nodes s = s\<lparr>effects := effects s @ map (\<lambda>n. Send (socket n) m) nodes\<rparr>"

text \<open>
  \<^verbatim>\<open>connect(MY_ADDRESS, address)\<close> opens a socket unless the address is connected or is
  the node's own. \<^verbatim>\<open>!connected.find(...)\<close> also holds when the address found is the
  empty string. The callbacks of the new socket are further events and not part of
  this call.
\<close>

definition connect :: "address \<Rightarrow> address \<Rightarrow> node \<Rightarrow> node" where
  "connect my a s =
     (if (case find (\<lambda>peerAddress. peerAddress = a) (connected s) of
            None \<Rightarrow> True | Some found \<Rightarrow> found = []) \<and> a \<noteq> my
      then s\<lparr>effects := effects s @ [Dial a]\<rparr>
      else s)"

text \<open>The pool after a block: the transactions that \<^verbatim>\<open>Transaction.isValid\<close> still accepts.\<close>

definition newTransactionPool :: "env \<Rightarrow> stateDB \<Rightarrow> transaction list \<Rightarrow> transaction list" where
  "newTransactionPool e db pool = filter (\<lambda>tx. isValid e tx db) pool"

section \<open>The message handlers of \<^verbatim>\<open>startServer\<close>\<close>

definition onNewBlock :: "env \<Rightarrow> options \<Rightarrow> block \<Rightarrow> node \<Rightarrow> node" where
  "onNewBlock e opts newBlock s =
     (if parentHash newBlock \<noteq> parentHash (latestBlock (chainInfo s)) \<and>
         (\<not> ENABLE_CHAIN_REQUEST s \<or>
          (ENABLE_CHAIN_REQUEST s \<and> numGreater (currentSyncBlock s) (Num 1)))
      then
        if verifyBlock e newBlock (chainInfo s) (stateDB s) then
          let s1 = (if ENABLE_MINING opts then s\<lparr>mined := True, worker := worker s + 1\<rparr> else s);
              s2 = s1\<lparr>chainInfo := (chainInfo s1)
                     \<lparr>difficulty := updateDifficulty e newBlock (chainInfo s1) (blockDB s1)\<rparr>\<rparr>;
              s3 = s2\<lparr>blockDB := blockDB_put (toString (blockNumber newBlock)) newBlock (blockDB s2)\<rparr>;
              s4 = s3\<lparr>chainInfo := (chainInfo s3)\<lparr>latestBlock := newBlock\<rparr>\<rparr>;
              s5 = s4\<lparr>stateDB := changeState e newBlock (stateDB s4) (ENABLE_LOGGING opts)\<rparr>;
              s6 = s5\<lparr>chainInfo := (chainInfo s5)
                     \<lparr>transactionPool :=
                        newTransactionPool e (stateDB s5) (transactionPool (chainInfo s5))\<rparr>\<rparr>;
              s7 = sendMessage (NEW_BLOCK newBlock) (opened s6) s6
          in (if ENABLE_CHAIN_REQUEST s7 then s7\<lparr>ENABLE_CHAIN_REQUEST := False\<rparr> else s7)
        else s
      else s)"

text \<open>
  The balance that the handler of \<^verbatim>\<open>CREATE_TRANSACTION\<close> computes: the \<^verbatim>\<open>forEach\<close> over the
  pool subtracts, for every transaction of the same sender,
  \<^verbatim>\<open>BigInt(tx.amount) + BigInt(tx.gas) + BigInt(transaction.additionalData.contractGas || 0)\<close>.
\<close>

definition poolBalance :: "env \<Rightarrow> transaction \<Rightarrow> int \<Rightarrow> transaction list \<Rightarrow> int" where
  "poolBalance e transaction senderBalance pool =
     foldl (\<lambda>bal tx.
              if senderAddress e tx = senderAddress e transaction
              then bal - (amount tx + gas tx + contractGasOf transaction)
              else bal)
       (senderBalance - amount transaction - gas transaction - contractGasOf transaction)
       pool"

definition timestampUsed :: "env \<Rightarrow> transaction \<Rightarrow> transaction list \<Rightarrow> bool" where
  "timestampUsed e transaction pool =
     list_ex (\<lambda>tx. timestamp tx = timestamp transaction)
       (filter (\<lambda>tx. senderAddress e tx = senderAddress e transaction) pool)"

definition onCreateTransaction :: "env \<Rightarrow> transaction \<Rightarrow> node \<Rightarrow> node" where
  "onCreateTransaction e transaction s =
     (if \<not> ENABLE_CHAIN_REQUEST s then
        if \<not> isValid e transaction (stateDB s) then s
        else
          case stateDB s (senderAddress e transaction) of
            None \<Rightarrow> s
          | Some dataFromSender \<Rightarrow>
              if poolBalance e transaction (balance dataFromSender)
                   (transactionPool (chainInfo s)) \<ge> 0 \<and>
                 \<not> timestampUsed e transaction (transactionPool (chainInfo s))
              then
                sendMessage (CREATE_TRANSACTION transaction) (opened s)
                  (s\<lparr>chainInfo := (chainInfo s)
                       \<lparr>transactionPool := transactionPool (chainInfo s) @ [transaction]\<rparr>\<rparr>)
              else s
      else s)"

text \<open>
  \<^verbatim>\<open>opened.find(node => node.address === requestAddress).socket\<close> throws a TypeError when
  no entry is found, and \<^verbatim>\<open>blockDB.get\<close> fails on a key that is not stored. The handler
  returns the error, if any, with the state reached.
\<close>

definition onRequestBlock :: "number \<Rightarrow> address \<Rightarrow> node \<Rightarrow> error option \<times> node" where
  "onRequestBlock blockNumber' requestAddress s =
     (if \<not> ENABLE_CHAIN_REQUEST s then
        case find (\<lambda>n. address n = requestAddress) (opened s) of
          None \<Rightarrow> (Some TypeError, s)
        | Some n \<Rightarrow>
            let currentBlockNumber = maxBlockNumber (blockDB s) in
            if numGreater blockNumber' (Num 0) \<and> numLessEq blockNumber' currentBlockNumber then
              case blockDB_get (blockDB s) (numToString blockNumber') of
                None \<Rightarrow> (Some NotFound, s)
              | Some b \<Rightarrow> (None, s\<lparr>effects := effects s @ [Send (socket n) (SEND_BLOCK b)]\<rparr>)
            else (None, s)
      else (None, s))"

text \<open>
  The loop that requests a block, in \<^verbatim>\<open>startServer\<close> and in the handler of \<^verbatim>\<open>SEND_BLOCK\<close>:
  \<^verbatim>\<open>
  for (const node of opened) {
      node.socket.send(produceMessage(TYPE.REQUEST_BLOCK,
          { blockNumber: currentSyncBlock, requestAddress: MY_ADDRESS }));
      await new Promise(r => setTimeout(r, 5000));
  }
  \<close>
  One iteration sends the request to the peer at the position of the loop, with the
  value that \<^verbatim>\<open>currentSyncBlock\<close> has at that moment, and suspends the loop for five
  seconds; other events are handled in between. The next iteration reads \<^verbatim>\<open>opened\<close>
  and \<^verbatim>\<open>currentSyncBlock\<close> again. The loop ends when its position is past the end of
  \<^verbatim>\<open>opened\<close>. All delays are equal, so the suspended loops continue in the order in
  which they were suspended.
\<close>

definition requestLoop :: "options \<Rightarrow> nat \<Rightarrow> node \<Rightarrow> node" where
  "requestLoop opts i s =
     (if i < length (opened s) then
        s\<lparr>effects := effects s @
             [Send (socket (opened s ! i))
                (REQUEST_BLOCK (currentSyncBlock s) (MY_ADDRESS opts))],
          pending := pending s @ [i + 1]\<rparr>
      else s)"

text \<open>A delay of five seconds ends: the oldest suspended loop continues.\<close>

definition onRequestTimer :: "options \<Rightarrow> node \<Rightarrow> node" where
  "onRequestTimer opts s =
     (case pending s of
        [] \<Rightarrow> s
      | i # rest \<Rightarrow> requestLoop opts i (s\<lparr>pending := rest\<rparr>))"

definition onSendBlock :: "env \<Rightarrow> options \<Rightarrow> block \<Rightarrow> node \<Rightarrow> node" where
  "onSendBlock e opts b s =
     (if ENABLE_CHAIN_REQUEST s \<and> currentSyncBlock s = Num (blockNumber b) then
        if latestSyncBlock (chainInfo s) = None \<or> verifyBlock e b (chainInfo s) (stateDB s) then
          let s1 = s\<lparr>currentSyncBlock := numPlus1 (currentSyncBlock s)\<rparr>;
              s2 = s1\<lparr>blockDB := blockDB_put (toString (blockNumber b)) b (blockDB s1)\<rparr>;
              s3 = (if latestSyncBlock (chainInfo s2) = None
                    then s2\<lparr>chainInfo := (chainInfo s2)\<lparr>latestSyncBlock := Some b\<rparr>\<rparr> else s2);
              s4 = s3\<lparr>chainInfo := (chainInfo s3)\<lparr>latestBlock := b\<rparr>\<rparr>;
              s5 = s4\<lparr>stateDB := changeState e b (stateDB s4) False\<rparr>;
              s6 = s5\<lparr>chainInfo := (chainInfo s5)
                     \<lparr>difficulty := updateDifficulty e b (chainInfo s5) (blockDB s5)\<rparr>\<rparr>
          in requestLoop opts 0 s6
        else s
      else s)"

text \<open>The \<^verbatim>\<open>switch\<close> over the message type.\<close>

fun onMessage :: "env \<Rightarrow> options \<Rightarrow> message \<Rightarrow> node \<Rightarrow> error option \<times> node" where
  "onMessage e opts (NEW_BLOCK newBlock) s = (None, onNewBlock e opts newBlock s)"
| "onMessage e opts (CREATE_TRANSACTION transaction) s = (None, onCreateTransaction e transaction s)"
| "onMessage e opts (REQUEST_BLOCK n requestAddress) s = onRequestBlock n requestAddress s"
| "onMessage e opts (SEND_BLOCK b) s = (None, onSendBlock e opts b s)"
| "onMessage e opts (HANDSHAKE a) s = (None, connect (MY_ADDRESS opts) a s)"

section \<open>Mining: \<^verbatim>\<open>mine\<close> and \<^verbatim>\<open>loopMine\<close>\<close>

text \<open>
  \<^verbatim>\<open>mine\<close> builds the candidate block and sends it with the difficulty to the worker
  process (\<^verbatim>\<open>worker.send({ type: "MINE", data: [block, difficulty] })\<close>).
\<close>

definition mine :: "env \<Rightarrow> pubkey \<Rightarrow> int \<Rightarrow> int \<Rightarrow> node \<Rightarrow> node" where
  "mine e pk created now s =
     s\<lparr>effects := effects s @
         [WorkerSend (worker s) (candidateBlock e pk created now (chainInfo s))
            (difficulty (chainInfo s))]\<rparr>"

text \<open>The callback of \<^verbatim>\<open>mine\<close> for the block that the worker reports.\<close>

definition onMined :: "env \<Rightarrow> bool \<Rightarrow> block \<Rightarrow> node \<Rightarrow> node" where
  "onMined e enableLogging result s =
     (let s' =
        (if \<not> mined s then
           let s1 = s\<lparr>chainInfo := (chainInfo s)
                      \<lparr>difficulty := updateDifficulty e result (chainInfo s) (blockDB s)\<rparr>\<rparr>;
               s2 = s1\<lparr>blockDB := blockDB_put (toString (blockNumber result)) result (blockDB s1)\<rparr>;
               s3 = s2\<lparr>chainInfo := (chainInfo s2)\<lparr>latestBlock := result\<rparr>\<rparr>;
               s4 = s3\<lparr>stateDB :=
                        changeState e (latestBlock (chainInfo s3)) (stateDB s3) enableLogging\<rparr>;
               s5 = s4\<lparr>chainInfo := (chainInfo s4)
                      \<lparr>transactionPool :=
                         newTransactionPool e (stateDB s4) (transactionPool (chainInfo s4))\<rparr>\<rparr>
           in sendMessage (NEW_BLOCK (latestBlock (chainInfo s5))) (opened s5) s5
         else s\<lparr>mined := False\<rparr>)
      in s'\<lparr>worker := worker s' + 1\<rparr>)"

text \<open>
  The variables of one call of \<^verbatim>\<open>loopMine\<close>: its parameters \<^verbatim>\<open>publicKey\<close>,
  \<^verbatim>\<open>ENABLE_CHAIN_REQUEST\<close> and \<^verbatim>\<open>ENABLE_LOGGING\<close>, and its locals \<^verbatim>\<open>length\<close> and \<^verbatim>\<open>mining\<close>.
\<close>

record loopMineState =
  lm_publicKey :: pubkey
  lm_ENABLE_CHAIN_REQUEST :: bool
  lm_ENABLE_LOGGING :: bool
  lm_length :: int
  lm_mining :: bool

definition loopMine :: "pubkey \<Rightarrow> bool \<Rightarrow> bool \<Rightarrow> node \<Rightarrow> loopMineState" where
  "loopMine pk chainRequest logging s =
     \<lparr>lm_publicKey = pk, lm_ENABLE_CHAIN_REQUEST = chainRequest, lm_ENABLE_LOGGING = logging,
      lm_length = blockNumber (latestBlock (chainInfo s)), lm_mining = True\<rparr>"

text \<open>One run of the function that \<^verbatim>\<open>loopMine\<close> gives to \<^verbatim>\<open>setInterval\<close>.\<close>

definition loopMineTick :: "env \<Rightarrow> int \<Rightarrow> int \<Rightarrow> loopMineState \<times> node \<Rightarrow> loopMineState \<times> node" where
  "loopMineTick e created now ls =
     (let lm = fst ls; s = snd ls in
      if lm_mining lm \<or> lm_length lm \<noteq> blockNumber (latestBlock (chainInfo s)) then
        let lm' = lm\<lparr>lm_mining := False, lm_length := blockNumber (latestBlock (chainInfo s))\<rparr>
        in if \<not> lm_ENABLE_CHAIN_REQUEST lm'
           then (lm', mine e (lm_publicKey lm') created now s)
           else (lm', s)
      else (lm, s))"

section \<open>The RPC entry for transactions\<close>

text \<open>
  \<^verbatim>\<open>sendTransaction\<close> of server.js, which the RPC server receives as its
  \<^verbatim>\<open>transactionHandler\<close>: broadcast, then \<^verbatim>\<open>addTransaction\<close> on the pool.
\<close>

definition sendTransaction :: "env \<Rightarrow> transaction \<Rightarrow> node \<Rightarrow> node" where
  "sendTransaction e transaction s =
     (let s1 = sendMessage (CREATE_TRANSACTION transaction) (opened s) s;
          s2 = s1\<lparr>effects := effects s1 @ [AddTransaction transaction]\<rparr>
      in s2\<lparr>chainInfo := (chainInfo s2)
              \<lparr>transactionPool :=
                 addTransaction e transaction (transactionPool (chainInfo s2)) (stateDB s2)\<rparr>\<rparr>)"

text \<open>
  \<^verbatim>\<open>request.body?.params.transaction\<close> is absent (or otherwise falsy), a value that is
  not an object, or an object.
\<close>

datatype param = NoTransaction | NotAnObject | TransactionObject transaction

definition handleSendTransaction :: "env \<Rightarrow> param \<Rightarrow> node \<Rightarrow> node" where
  "handleSendTransaction e p s =
     (case p of
        TransactionObject transaction \<Rightarrow>
          sendTransaction e transaction
            (s\<lparr>effects := effects s @
                 [Reply (RespondSuccess ''Transaction received and queued for processing'')]\<rparr>)
      | _ \<Rightarrow>
          s\<lparr>effects := effects s @
               [Reply (RespondError 400 ''Invalid request: transaction parameter required'')]\<rparr>)"

section \<open>Start of the node and its runs\<close>

definition initialNode :: "env \<Rightarrow> options \<Rightarrow> stateDB \<Rightarrow> blockDB \<Rightarrow> node" where
  "initialNode e opts sdb bdb =
     \<lparr>opened = [], connected = [],
      chainInfo = \<lparr>transactionPool = [], latestBlock = generateGenesisBlock e,
                   latestSyncBlock = None, difficulty = 1\<rparr>,
      stateDB = sdb, blockDB = bdb,
      ENABLE_CHAIN_REQUEST = options_ENABLE_CHAIN_REQUEST opts,
      currentSyncBlock = Num 1, mined = False, worker = 0, effects = [], pending = []\<rparr>"

text \<open>
  The part of \<^verbatim>\<open>startServer\<close> after the handlers are installed: the head of the chain,
  the peers, the height at which the synchronisation starts, and the mining loop.
  The stores are those found on disk.
\<close>

definition loadHead :: "env \<Rightarrow> node \<Rightarrow> error + node" where
  "loadHead e s =
     (if \<not> ENABLE_CHAIN_REQUEST s then
        if length (blockDB_keys (blockDB s)) = 0 then
          let s1 = s\<lparr>blockDB := blockDB_put (toString (blockNumber (latestBlock (chainInfo s))))
                                  (latestBlock (chainInfo s)) (blockDB s)\<rparr>
          in Inr (s1\<lparr>stateDB := changeState e (latestBlock (chainInfo s1)) (stateDB s1) False\<rparr>)
        else
          case blockDB_get (blockDB s) (numToString (maxBlockNumber (blockDB s))) of
            None \<Rightarrow> Inl NotFound
          | Some b \<Rightarrow>
              Inr (s\<lparr>chainInfo := (chainInfo s)\<lparr>latestBlock := b, difficulty := blockDifficulty b\<rparr>\<rparr>)
      else Inr s)"

text \<open>
  \<^verbatim>\<open>let currentSyncBlock = 1\<close> and the block under \<^verbatim>\<open>if (ENABLE_CHAIN_REQUEST)\<close>: the
  height is read from the store, and \<^verbatim>\<open>setTimeout(..., 5000)\<close> suspends a request loop
  that starts at the first peer.
\<close>

definition syncInit :: "node \<Rightarrow> node" where
  "syncInit s =
     (let s1 = s\<lparr>currentSyncBlock := Num 1\<rparr> in
      if ENABLE_CHAIN_REQUEST s1 then
        let s2 = (if length (blockDB_keys (blockDB s1)) \<noteq> 0
                  then s1\<lparr>currentSyncBlock := maxBlockNumber (blockDB s1)\<rparr>
                  else s1)
        in s2\<lparr>pending := pending s2 @ [0]\<rparr>
      else s1)"

definition startServer ::
    "env \<Rightarrow> options \<Rightarrow> stateDB \<Rightarrow> blockDB \<Rightarrow> error + (loopMineState option \<times> node)" where
  "startServer e opts sdb bdb =
     (case loadHead e (initialNode e opts sdb bdb) of
        Inl err \<Rightarrow> Inl err
      | Inr s1 \<Rightarrow>
          let s2 = foldl (\<lambda>s p. connect (MY_ADDRESS opts) p s) s1 (PEERS opts);
              s3 = syncInit s2
          in Inr (if ENABLE_MINING opts
                  then Some (loopMine (publicKey opts) (ENABLE_CHAIN_REQUEST s3)
                               (ENABLE_LOGGING opts) s3)
                  else None,
                  s3))"

text \<open>
  What can happen to a running node: a message arrives, the interval of \<^verbatim>\<open>loopMine\<close>
  elapses (with the two readings of the clock), the worker reports a block, a
  transaction is submitted over RPC, the delay of a request loop ends. Each is handled
  up to the point where it ends or suspends in a delay, before the next. A handler
  that throws leaves the state it has reached.
\<close>

datatype event =
    Message message
  | Tick int int
  | Mined block
  | SendTransactionRequest param
  | RequestTimer

fun step :: "env \<Rightarrow> options \<Rightarrow> loopMineState option \<times> node \<Rightarrow> event
    \<Rightarrow> loopMineState option \<times> node" where
  "step e opts (l, s) (Message m) = (l, snd (onMessage e opts m s))"
| "step e opts (None, s) (Tick created now) = (None, s)"
| "step e opts (Some lm, s) (Tick created now) =
     (Some (fst (loopMineTick e created now (lm, s))), snd (loopMineTick e created now (lm, s)))"
| "step e opts (None, s) (Mined b) = (None, s)"
| "step e opts (Some lm, s) (Mined b) = (Some lm, onMined e (lm_ENABLE_LOGGING lm) b s)"
| "step e opts (l, s) (SendTransactionRequest p) =
     (l, if ENABLE_RPC opts then handleSendTransaction e p s else s)"
| "step e opts (l, s) RequestTimer = (l, onRequestTimer opts s)"

definition run :: "env \<Rightarrow> options \<Rightarrow> event list \<Rightarrow> loopMineState option \<times> node
    \<Rightarrow> loopMineState option \<times> node" where
  "run e opts evs ls = foldl (step e opts) ls evs"

text \<open>The messages of the gossip protocol only.\<close>

definition gossip :: "env \<Rightarrow> options \<Rightarrow> message list \<Rightarrow> node \<Rightarrow> node" where
  "gossip e opts ms s = foldl (\<lambda>s m. snd (onMessage e opts m s)) s ms"

section \<open>Properties stated over the model\<close>

text \<open>The effects that hand a candidate block to a worker.\<close>

fun isWorkerSend :: "effect \<Rightarrow> bool" where
  "isWorkerSend (WorkerSend w b d) = True"
| "isWorkerSend x = False"

definition workerSends :: "node \<Rightarrow> effect list" where
  "workerSends s = filter isWorkerSend (effects s)"

text \<open>
  No two transactions of the pool have the same sender and the same time stamp.
\<close>

definition distinctTimestamps :: "env \<Rightarrow> transaction list \<Rightarrow> bool" where
  "distinctTimestamps e pool = distinct (map (\<lambda>tx. (senderAddress e tx, timestamp tx)) pool)"

text \<open>
  The projected balance in the words of the specification: the sender's stored
  balance minus amount, gas and contract gas of the new transaction and of every
  transaction of the pool from the same sender.
\<close>

definition cost :: "transaction \<Rightarrow> int" where
  "cost tx = amount tx + gas tx + contractGasOf tx"

definition projectedBalance_spec :: "env \<Rightarrow> transaction \<Rightarrow> int \<Rightarrow> transaction list \<Rightarrow> int" where
  "projectedBalance_spec e transaction senderBalance pool =
     senderBalance - cost transaction
       - sum_list (map cost (filter (\<lambda>tx. senderAddress e tx = senderAddress e transaction) pool))"

text \<open>
  A mining loop that was given \<^verbatim>\<open>ENABLE_CHAIN_REQUEST = true\<close>, if there is a loop, and
  a node that has sent nothing to a worker.
\<close>

definition idle :: "loopMineState option \<times> node \<Rightarrow> bool" where
  "idle ls = ((case fst ls of None \<Rightarrow> True | Some lm \<Rightarrow> lm_ENABLE_CHAIN_REQUEST lm) \<and>
              workerSends (snd ls) = [])"

text \<open>The strings of decimal digits.\<close>

definition decimal :: "string \<Rightarrow> bool" where
  "decimal cs = (\<forall>c \<in> set cs. \<exists>d < 10. c = digitChar d)"

section \<open>An instance of the parameters\<close>

text \<open>
  A small instance of the imported functions, for concrete runs of the model: the
  signature of a transaction names its signer, a transaction is valid when its sender
  is stored and can pay for it, and a block is valid when it extends the head.
\<close>

definition exampleGenesis :: block where
  "exampleGenesis = \<lparr>blockNumber = 0, blockTimestamp = 0, transactions = [],
     blockDifficulty = 1, parentHash = ''origin'', hash = ''g''\<rparr>"

definition exampleEnv :: env where
  "exampleEnv =
     \<lparr>SHA256 = (\<lambda>m. CHR ''#'' # m),
      getPubKey = (\<lambda>tx. case signature tx of None \<Rightarrow> [] | Some sg \<Rightarrow> sg),
      isValid = (\<lambda>tx db.
         case db (CHR ''#'' # (case signature tx of None \<Rightarrow> [] | Some sg \<Rightarrow> sg)) of
           None \<Rightarrow> False
         | Some a \<Rightarrow> amount tx + gas tx + contractGasOf tx \<le> balance a),
      sign = (\<lambda>tx kp. kp),
      verifyBlock = (\<lambda>b ci db.
         blockNumber b = blockNumber (latestBlock ci) + 1 \<and> parentHash b = hash (latestBlock ci)),
      updateDifficulty = (\<lambda>b ci db. difficulty ci),
      changeState = (\<lambda>b db logging. db),
      addTransaction = (\<lambda>tx pool db. pool @ [tx]),
      generateGenesisBlock = exampleGenesis,
      BLOCK_REWARD = 202297,
      BLOCK_GAS_LIMIT = 50,
      defaultGas = 10\<rparr>"

definition exampleTx :: "string \<Rightarrow> int \<Rightarrow> int \<Rightarrow> int option \<Rightarrow> int \<Rightarrow> transaction" where
  "exampleTx signer a g cg ts =
     \<lparr>recipient = ''#bob'', amount = a, gas = g, additionalData = \<lparr>contractGas = cg\<rparr>,
      timestamp = ts, signature = Some signer\<rparr>"

definition exampleBlock :: "int \<Rightarrow> string \<Rightarrow> string \<Rightarrow> block" where
  "exampleBlock n ph h = \<lparr>blockNumber = n, blockTimestamp = n, transactions = [],
     blockDifficulty = 1, parentHash = ph, hash = h\<rparr>"

definition exampleOptions :: "bool \<Rightarrow> bool \<Rightarrow> options" where
  "exampleOptions mining chainRequest =
     \<lparr>PEERS = [], MY_ADDRESS = ''ws://localhost:3000'', ENABLE_MINING = mining,
      ENABLE_LOGGING = False, ENABLE_RPC = True,
      options_ENABLE_CHAIN_REQUEST = chainRequest, publicKey = ''miner''\<rparr>"

definition exampleState :: stateDB where
  "exampleState = [''#alice'' \<mapsto> \<lparr>balance = 100, body = [], storage = []\<rparr>]"

definition exampleChainInfo :: "transaction list \<Rightarrow> chainInfo" where
  "exampleChainInfo pool =
     \<lparr>transactionPool = pool, latestBlock = exampleGenesis,
      latestSyncBlock = None, difficulty = 1\<rparr>"

text \<open>A node with one open peer, as after the start with the given stores.\<close>

definition exampleNode :: "bool \<Rightarrow> blockDB \<Rightarrow> transaction list \<Rightarrow> node" where
  "exampleNode chainRequest bdb pool =
     \<lparr>opened = [\<lparr>socket = 7, address = ''ws://peer:3000''\<rparr>], connected = [''ws://peer:3000''],
      chainInfo = exampleChainInfo pool,
      stateDB = exampleState, blockDB = bdb,
      ENABLE_CHAIN_REQUEST = chainRequest,
      currentSyncBlock = Num 1, mined = False, worker = 0, effects = [], pending = []\<rparr>"

section \<open>The transaction selection of the mining coordinator\<close>

lemma mineLoop_char:
  "\<exists>sel rest. pool = sel @ rest \<and>
     mineLoop e pool (acc, c, g) =
       (acc @ sel, c + sum_list (map contractGasOf sel),
        g + sum_list (map gas sel) + sum_list (map contractGasOf sel)) \<and>
     (\<forall>n. 0 < n \<and> n \<le> length sel \<longrightarrow>
          c + sum_list (map contractGasOf (take n sel)) < BLOCK_GAS_LIMIT e) \<and>
     (\<forall>tx rest'. rest = tx # rest' \<longrightarrow>
          BLOCK_GAS_LIMIT e \<le> c + sum_list (map contractGasOf sel) + contractGasOf tx)"
proof (induction pool arbitrary: acc c g)
  case Nil
  show ?case by simp
next
  case (Cons tx pool)
  show ?case
  proof (cases "BLOCK_GAS_LIMIT e \<le> c + contractGasOf tx")
    case True
    then show ?thesis
      by (intro exI[of _ "[]"] exI[of _ "tx # pool"]) simp
  next
    case False
    from Cons.IH[of "acc @ [tx]" "c + contractGasOf tx" "g + (gas tx + contractGasOf tx)"]
    obtain sel rest where sr: "pool = sel @ rest"
      and ml: "mineLoop e pool (acc @ [tx], c + contractGasOf tx, g + (gas tx + contractGasOf tx)) =
         ((acc @ [tx]) @ sel, c + contractGasOf tx + sum_list (map contractGasOf sel),
          g + (gas tx + contractGasOf tx) + sum_list (map gas sel)
            + sum_list (map contractGasOf sel))"
      and below: "\<forall>n. 0 < n \<and> n \<le> length sel \<longrightarrow>
          c + contractGasOf tx + sum_list (map contractGasOf (take n sel)) < BLOCK_GAS_LIMIT e"
      and stop: "\<forall>tx' rest'. rest = tx' # rest' \<longrightarrow>
          BLOCK_GAS_LIMIT e
            \<le> c + contractGasOf tx + sum_list (map contractGasOf sel) + contractGasOf tx'"
      by blast
    have below': "c + sum_list (map contractGasOf (take n (tx # sel))) < BLOCK_GAS_LIMIT e"
      if "0 < n" "n \<le> length (tx # sel)" for n
    proof (cases n)
      case 0
      with that show ?thesis by simp
    next
      case (Suc m)
      show ?thesis
      proof (cases m)
        case 0
        with Suc False show ?thesis by simp
      next
        case (Suc k)
        with \<open>n = Suc m\<close> that below[rule_format, of m] show ?thesis
          by (simp add: add.assoc)
      qed
    qed
    show ?thesis
      apply (rule exI[of _ "tx # sel"], rule exI[of _ rest])
      using sr ml False stop below' by (simp add: add.assoc add.left_commute)
  qed
qed

text \<open>
  Claim C3, as the code has it. The transactions that \<^verbatim>\<open>mine\<close> selects are a prefix of
  the pool, taken in pool order; after each selected transaction the contract gas
  accumulated so far is strictly below \<^verbatim>\<open>BLOCK_GAS_LIMIT\<close>; and when the selection stops
  before the end of the pool, the next transaction would have brought the accumulated
  contract gas to the limit or beyond it. So a candidate that reaches the limit
  exactly is not selected.
\<close>

theorem mine_selection_prefix_below_limit:
  "prefix (transactionsToMine e pool) pool \<and>
   (\<forall>n. 0 < n \<and> n \<le> length (transactionsToMine e pool) \<longrightarrow>
      sum_list (map contractGasOf (take n pool)) < BLOCK_GAS_LIMIT e) \<and>
   (transactionsToMine e pool \<noteq> pool \<longrightarrow>
      BLOCK_GAS_LIMIT e
        \<le> sum_list (map contractGasOf (take (length (transactionsToMine e pool) + 1) pool)))"
proof -
  from mineLoop_char[of pool e "[]" 0 0]
  obtain sel rest where sr: "pool = sel @ rest"
    and ml: "mineLoop e pool ([], 0, 0) =
       ([] @ sel, 0 + sum_list (map contractGasOf sel),
        0 + sum_list (map gas sel) + sum_list (map contractGasOf sel))"
    and below: "\<forall>n. 0 < n \<and> n \<le> length sel \<longrightarrow>
          0 + sum_list (map contractGasOf (take n sel)) < BLOCK_GAS_LIMIT e"
    and stop: "\<forall>tx rest'. rest = tx # rest' \<longrightarrow>
          BLOCK_GAS_LIMIT e \<le> 0 + sum_list (map contractGasOf sel) + contractGasOf tx"
    by blast
  have sel: "transactionsToMine e pool = sel"
    using ml by (simp add: transactionsToMine_def)
  have 1: "prefix (transactionsToMine e pool) pool"
    using sr sel by simp
  have 2: "sum_list (map contractGasOf (take n pool)) < BLOCK_GAS_LIMIT e"
    if "0 < n \<and> n \<le> length (transactionsToMine e pool)" for n
    using that below[rule_format, of n] sr sel by simp
  have 3: "BLOCK_GAS_LIMIT e
        \<le> sum_list (map contractGasOf (take (length (transactionsToMine e pool) + 1) pool))"
    if "transactionsToMine e pool \<noteq> pool"
  proof -
    from that sr sel obtain tx rest' where r: "rest = tx # rest'"
      by (cases rest) auto
    with stop have "BLOCK_GAS_LIMIT e \<le> sum_list (map contractGasOf sel) + contractGasOf tx"
      by simp
    moreover have "take (length sel + 1) pool = sel @ [tx]"
      using sr r by simp
    ultimately show ?thesis
      using sel by simp
  qed
  from 1 2 3 show ?thesis by blast
qed

text \<open>
  With a limit of 50 and a pool whose transactions carry contract gas 20, 30 and none,
  only the first is selected: the second would bring the total to the limit.
\<close>

theorem mine_selection_prefix_below_limit_witness:
  "transactionsToMine exampleEnv
      [exampleTx ''alice'' 1 10 (Some 20) 1, exampleTx ''alice'' 1 10 (Some 30) 2,
       exampleTx ''alice'' 1 10 None 3] = [exampleTx ''alice'' 1 10 (Some 20) 1] \<and>
   prefix (transactionsToMine exampleEnv
      [exampleTx ''alice'' 1 10 (Some 20) 1, exampleTx ''alice'' 1 10 (Some 30) 2,
       exampleTx ''alice'' 1 10 None 3])
      [exampleTx ''alice'' 1 10 (Some 20) 1, exampleTx ''alice'' 1 10 (Some 30) 2,
       exampleTx ''alice'' 1 10 None 3] \<and>
   BLOCK_GAS_LIMIT exampleEnv
     \<le> sum_list (map contractGasOf
          (take 2 [exampleTx ''alice'' 1 10 (Some 20) 1, exampleTx ''alice'' 1 10 (Some 30) 2,
                   exampleTx ''alice'' 1 10 None 3]))"
  using mine_selection_prefix_below_limit[of exampleEnv
      "[exampleTx ''alice'' 1 10 (Some 20) 1, exampleTx ''alice'' 1 10 (Some 30) 2,
        exampleTx ''alice'' 1 10 None 3]"]
  by (simp add: transactionsToMine_def contractGasOf_def exampleTx_def exampleEnv_def)

text \<open>
  Claim C3 as stated fails: a transaction whose contract gas equals the limit of the
  block exactly, first in the pool, is not selected.
\<close>

theorem mine_selection_at_limit_counterexample:
  "contractGasOf (exampleTx ''alice'' 1 10 (Some 50) 1) = BLOCK_GAS_LIMIT exampleEnv \<and>
   transactionsToMine exampleEnv [exampleTx ''alice'' 1 10 (Some 50) 1] = []"
  by (simp add: transactionsToMine_def contractGasOf_def exampleTx_def exampleEnv_def)

section \<open>The coinbase of the candidate block\<close>

text \<open>
  Claim C4. In the candidate block that \<^verbatim>\<open>mine\<close> sends to the worker, the transaction
  at index 0 is the transaction to the hash of the miner's public key, signed with the
  MINT key pair, whose amount is \<^verbatim>\<open>BLOCK_REWARD\<close> plus the gas and the contract gas of
  all selected transactions; the selected transactions follow it.
\<close>

theorem candidate_block_coinbase:
  "transactions (candidateBlock e pk created now ci) ! 0 =
     Transaction_sign e
       (Transaction e (SHA256 e pk)
          (BLOCK_REWARD e
             + sum_list (map gas (transactionsToMine e (transactionPool ci)))
             + sum_list (map contractGasOf (transactionsToMine e (transactionPool ci))))
          created)
       MINT_KEY_PAIR \<and>
   recipient (transactions (candidateBlock e pk created now ci) ! 0) = SHA256 e pk \<and>
   amount (transactions (candidateBlock e pk created now ci) ! 0) =
     BLOCK_REWARD e
       + sum_list (map gas (transactionsToMine e (transactionPool ci)))
       + sum_list (map contractGasOf (transactionsToMine e (transactionPool ci))) \<and>
   tl (transactions (candidateBlock e pk created now ci)) =
     transactionsToMine e (transactionPool ci) \<and>
   effects (mine e pk created now s) =
     effects s @ [WorkerSend (worker s) (candidateBlock e pk created now (chainInfo s))
                    (difficulty (chainInfo s))]"
proof -
  from mineLoop_char[of "transactionPool ci" e "[]" 0 0]
  obtain sel where
    ml: "mineLoop e (transactionPool ci) ([], 0, 0) =
       ([] @ sel, 0 + sum_list (map contractGasOf sel),
        0 + sum_list (map gas sel) + sum_list (map contractGasOf sel))"
    by blast
  have sel: "transactionsToMine e (transactionPool ci) = sel"
    using ml by (simp add: transactionsToMine_def)
  have tot: "totalTxGas e (transactionPool ci) =
      sum_list (map gas sel) + sum_list (map contractGasOf sel)"
    using ml by (simp add: totalTxGas_def)
  show ?thesis
    by (simp add: candidateBlock_def Block_def rewardTransaction_def sel tot
        Transaction_sign_def Transaction_def mine_def add.assoc)
qed

text \<open>
  With a reward of 202297 and a pool of two transactions with gas 10 each and contract
  gas 20 and none, the coinbase pays 202297 + 20 + 20 = 202337.
\<close>

theorem candidate_block_coinbase_witness:
  "amount (transactions (candidateBlock exampleEnv ''miner'' 5 6
      (exampleChainInfo [exampleTx ''alice'' 1 10 (Some 20) 1,
                         exampleTx ''alice'' 1 10 None 3])) ! 0) = 202337 \<and>
   recipient (transactions (candidateBlock exampleEnv ''miner'' 5 6
      (exampleChainInfo [exampleTx ''alice'' 1 10 (Some 20) 1,
                         exampleTx ''alice'' 1 10 None 3])) ! 0) = ''#miner''"
proof -
  have sel: "transactionsToMine exampleEnv
      (transactionPool (exampleChainInfo [exampleTx ''alice'' 1 10 (Some 20) 1,
                                          exampleTx ''alice'' 1 10 None 3])) =
      [exampleTx ''alice'' 1 10 (Some 20) 1, exampleTx ''alice'' 1 10 None 3]"
    by (simp add: transactionsToMine_def contractGasOf_def exampleTx_def exampleEnv_def
        exampleChainInfo_def)
  note coinbase = candidate_block_coinbase[of exampleEnv "''miner''" 5 6
      "exampleChainInfo [exampleTx ''alice'' 1 10 (Some 20) 1, exampleTx ''alice'' 1 10 None 3]"
      "exampleNode False [] []"]
  have a: "amount (transactions (candidateBlock exampleEnv ''miner'' 5 6
      (exampleChainInfo [exampleTx ''alice'' 1 10 (Some 20) 1,
                         exampleTx ''alice'' 1 10 None 3])) ! 0) =
     BLOCK_REWARD exampleEnv
       + sum_list (map gas [exampleTx ''alice'' 1 10 (Some 20) 1, exampleTx ''alice'' 1 10 None 3])
       + sum_list (map contractGasOf
           [exampleTx ''alice'' 1 10 (Some 20) 1, exampleTx ''alice'' 1 10 None 3])"
    using coinbase unfolding sel by blast
  have r: "recipient (transactions (candidateBlock exampleEnv ''miner'' 5 6
      (exampleChainInfo [exampleTx ''alice'' 1 10 (Some 20) 1,
                         exampleTx ''alice'' 1 10 None 3])) ! 0) = SHA256 exampleEnv ''miner''"
    using coinbase by blast
  show ?thesis
    unfolding a r by (simp add: contractGasOf_def exampleTx_def exampleEnv_def)
qed

section \<open>Keys of the block store\<close>

text \<open>\<^verbatim>\<open>parseInt\<close> reads back what \<^verbatim>\<open>toString\<close> writes.\<close>

lemma digit_cases: "d < 10 \<Longrightarrow> d \<in> {0, 1, 2, 3, 4, 5, 6, 7, 8, 9::nat}"
  by auto

lemma digitValue_digitChar: "d < 10 \<Longrightarrow> digitValue (digitChar d) = Some d"
  by (drule digit_cases) (auto simp: digitChar_def digitValue_def)

lemma digitChar_plain:
  "d < 10 \<Longrightarrow> \<not> isWhiteSpace (digitChar d) \<and> digitChar d \<noteq> CHR ''-'' \<and>
     digitChar d \<noteq> CHR ''+'' \<and> digitChar d \<noteq> CHR ''x'' \<and> digitChar d \<noteq> CHR ''X''"
  by (drule digit_cases) (auto simp: digitChar_def isWhiteSpace_def)

lemma natToString_decimal: "decimal (natToString n) \<and> natToString n \<noteq> []"
proof (induction n rule: natToString.induct)
  case (1 n)
  show ?case
  proof (cases "n < 10")
    case True
    then show ?thesis
      by (subst (1 2) natToString.simps) (auto simp: decimal_def)
  next
    case False
    have "\<exists>d<10. digitChar (n mod 10) = digitChar d"
      by (rule exI[of _ "n mod 10"]) simp
    with False 1 show ?thesis
      by (subst (1 2) natToString.simps) (simp add: decimal_def)
  qed
qed

lemma digitsValue_snoc:
  "d < 10 \<Longrightarrow> digitsValue 10 (cs @ [digitChar d]) = digitsValue 10 cs * 10 + d"
  by (simp add: digitsValue_def digitValue_digitChar)

lemma digitsValue_natToString: "digitsValue 10 (natToString n) = n"
proof (induction n rule: natToString.induct)
  case (1 n)
  show ?case
  proof (cases "n < 10")
    case True
    then show ?thesis
      by (subst natToString.simps) (simp add: digitsValue_def digitValue_digitChar)
  next
    case False
    have "digitsValue 10 (natToString (n div 10) @ [digitChar (n mod 10)]) =
        digitsValue 10 (natToString (n div 10)) * 10 + n mod 10"
      by (rule digitsValue_snoc) simp
    with False 1 show ?thesis
      by (subst natToString.simps) simp
  qed
qed

lemma decimal_takeWhile: "decimal cs \<Longrightarrow> takeWhile (isDigitOf 10) cs = cs"
  by (rule takeWhile_eq_all_conv[THEN iffD2])
     (auto simp: decimal_def isDigitOf_def digitValue_digitChar)

lemma decimal_dropWhile: "decimal cs \<Longrightarrow> dropWhile isWhiteSpace cs = cs"
  by (cases cs) (auto simp: decimal_def digitChar_plain)


lemma decimal_Cons:
  "decimal (c # cs) \<Longrightarrow>
     c \<noteq> CHR ''-'' \<and> c \<noteq> CHR ''+'' \<and> c \<noteq> CHR ''x'' \<and> c \<noteq> CHR ''X'' \<and>
     \<not> isWhiteSpace c \<and> decimal cs"
  unfolding decimal_def using digitChar_plain by fastforce

lemma parseInt_sign_free:
  assumes p: "take 1 cs \<noteq> ''-''" "take 1 cs \<noteq> ''+''" "take 2 cs \<noteq> ''0x''" "take 2 cs \<noteq> ''0X''"
    and dw: "dropWhile isWhiteSpace cs = cs" and tw: "takeWhile (isDigitOf 10) cs = cs"
    and ne: "cs \<noteq> []"
  shows "parseInt cs = Num (int (digitsValue 10 cs))"
  using p ne by (simp add: parseInt_def Let_def dw tw)

lemma decimal_no_sign: "decimal cs \<Longrightarrow> take 1 cs \<noteq> ''-'' \<and> take 1 cs \<noteq> ''+''"
  by (cases cs) (simp_all add: decimal_Cons)

lemma decimal_no_hex: "decimal cs \<Longrightarrow> take 2 cs \<noteq> ''0x'' \<and> take 2 cs \<noteq> ''0X''"
proof (cases cs)
  case Nil
  then show ?thesis by simp
next
  case (Cons c cs')
  assume "decimal cs"
  with Cons have d': "decimal cs'"
    using decimal_Cons by blast
  show ?thesis
    using Cons d' by (cases cs') (simp_all add: decimal_Cons)
qed

lemma parseInt_decimal:
  "decimal cs \<Longrightarrow> cs \<noteq> [] \<Longrightarrow> parseInt cs = Num (int (digitsValue 10 cs))"
  using decimal_no_sign[of cs] decimal_no_hex[of cs]
  by (intro parseInt_sign_free) (simp_all add: decimal_dropWhile decimal_takeWhile)

lemma parseInt_minus:
  "parseInt (CHR ''-'' # cs) =
     (case parseInt cs of Num v \<Rightarrow> Num (- v) | x \<Rightarrow> x)"
  if "take 1 cs \<noteq> ''-''" "take 1 cs \<noteq> ''+''" "dropWhile isWhiteSpace cs = cs"
  using that(1,2) by (simp add: parseInt_def Let_def isWhiteSpace_def that(3))

lemma parseInt_toString: "parseInt (toString i) = Num i"
proof (cases "i < 0")
  case False
  then show ?thesis
    using natToString_decimal[of "nat i"]
    by (simp add: toString_def parseInt_decimal digitsValue_natToString)
next
  case True
  have d: "decimal (natToString (nat (- i)))" "natToString (nat (- i)) \<noteq> []"
    using natToString_decimal by blast+
  have "parseInt (CHR ''-'' # natToString (nat (- i))) =
      (case parseInt (natToString (nat (- i))) of Num v \<Rightarrow> Num (- v) | x \<Rightarrow> x)"
    using decimal_no_sign[OF d(1)] by (intro parseInt_minus) (simp_all add: decimal_dropWhile d)
  with True d show ?thesis
    by (simp add: toString_def parseInt_decimal digitsValue_natToString)
qed



lemma toString_small:
  "toString 0 = ''0''" "toString 1 = ''1''" "toString 2 = ''2''" "toString 3 = ''3''"
  by (simp_all add: toString_def natToString.simps digitChar_def)


lemma filter_Send [simp]: "filter isWorkerSend (map (\<lambda>n. Send (f n) (g n)) xs) = []"
  by (induction xs) simp_all

lemma foldl_numMax_Num:
  "foldl numMax (Num a) (map Num ns) = Num (Max (insert a (set ns)))"
proof (induction ns arbitrary: a)
  case Nil
  show ?case by simp
next
  case (Cons n ns)
  have "Max (insert (max a n) (set ns)) = Max (insert a (insert n (set ns)))"
    by (cases "set ns = {}") (simp_all add: max.assoc)
  with Cons show ?case by simp
qed

lemma Math_max_Num: "ns \<noteq> [] \<Longrightarrow> Math_max (map Num ns) = Num (Max (set ns))"
  by (cases ns) (simp_all add: Math_max_def foldl_numMax_Num)

lemma maxBlockNumber_toString:
  "ns \<noteq> [] \<Longrightarrow> blockDB_keys db = map toString ns \<Longrightarrow> maxBlockNumber db = Num (Max (set ns))"
  by (simp add: maxBlockNumber_def parseInt_toString o_def Math_max_Num[symmetric])

lemma connect_frame:
  "blockDB (connect my a s) = blockDB s \<and> stateDB (connect my a s) = stateDB s \<and>
   chainInfo (connect my a s) = chainInfo s \<and>
   ENABLE_CHAIN_REQUEST (connect my a s) = ENABLE_CHAIN_REQUEST s \<and>
   workerSends (connect my a s) = workerSends s"
  by (simp add: connect_def workerSends_def)

lemma connect_all_frame:
  "blockDB (foldl (\<lambda>s p. connect my p s) s ps) = blockDB s \<and>
   stateDB (foldl (\<lambda>s p. connect my p s) s ps) = stateDB s \<and>
   chainInfo (foldl (\<lambda>s p. connect my p s) s ps) = chainInfo s \<and>
   ENABLE_CHAIN_REQUEST (foldl (\<lambda>s p. connect my p s) s ps) = ENABLE_CHAIN_REQUEST s \<and>
   workerSends (foldl (\<lambda>s p. connect my p s) s ps) = workerSends s"
  by (induction ps arbitrary: s) (simp_all add: connect_frame)


section \<open>A new block on the parent of the head\<close>

text \<open>
  Claim C2. A \<^verbatim>\<open>NEW_BLOCK\<close> message whose block has the same \<^verbatim>\<open>parentHash\<close> as the
  current head is ignored: the handler returns without error and leaves the whole
  state of the node as it was, that is the block store, the state store, the chain
  information with head, difficulty and pool, the flags, the worker process, and the
  list of effects, so nothing is sent.
\<close>

theorem new_block_same_parent_ignored:
  "parentHash newBlock = parentHash (latestBlock (chainInfo s)) \<Longrightarrow>
   onMessage e opts (NEW_BLOCK newBlock) s = (None, s)"
  by (simp add: onNewBlock_def)

theorem new_block_same_parent_ignored_witness:
  "parentHash (exampleBlock 1 ''origin'' ''h1'') =
     parentHash (latestBlock (chainInfo (exampleNode False [] []))) \<and>
   onMessage exampleEnv (exampleOptions True False) (NEW_BLOCK (exampleBlock 1 ''origin'' ''h1''))
     (exampleNode False [] []) = (None, exampleNode False [] [])"
proof -
  have h: "parentHash (exampleBlock 1 ''origin'' ''h1'') =
     parentHash (latestBlock (chainInfo (exampleNode False [] [])))"
    by (simp add: exampleBlock_def exampleNode_def exampleChainInfo_def exampleGenesis_def)
  show ?thesis
    using h new_block_same_parent_ignored[OF h] by simp
qed

section \<open>A block received during the synchronisation\<close>






section \<open>The height at which the synchronisation starts\<close>

text \<open>
  What \<^verbatim>\<open>startServer\<close> computes when the chain is requested: it completes, the height is
  1 for an empty store, and for a store whose keys are the decimal strings of block
  numbers it is the greatest of them.
\<close>

lemma startServer_sync_height:
  "options_ENABLE_CHAIN_REQUEST opts \<Longrightarrow>
   \<exists>l s. startServer e opts sdb bdb = Inr (l, s) \<and>
     (bdb = [] \<longrightarrow> currentSyncBlock s = Num 1) \<and>
     (\<forall>ns. ns \<noteq> [] \<and> blockDB_keys bdb = map toString ns \<longrightarrow>
        currentSyncBlock s = Num (Max (set ns)))"
proof -
  assume cr: "options_ENABLE_CHAIN_REQUEST opts"
  let ?s0 = "initialNode e opts sdb bdb"
  let ?s2 = "foldl (\<lambda>s p. connect (MY_ADDRESS opts) p s) ?s0 (PEERS opts)"
  have lh: "loadHead e ?s0 = Inr ?s0"
    using cr by (simp add: loadHead_def initialNode_def)
  have b2: "blockDB ?s2 = bdb" and c2: "ENABLE_CHAIN_REQUEST ?s2"
    using cr by (simp_all add: connect_all_frame initialNode_def)
  have st: "startServer e opts sdb bdb =
      Inr (if ENABLE_MINING opts
           then Some (loopMine (publicKey opts) (ENABLE_CHAIN_REQUEST (syncInit ?s2))
                        (ENABLE_LOGGING opts) (syncInit ?s2))
           else None, syncInit ?s2)"
    by (simp add: startServer_def lh Let_def)
  have e1: "currentSyncBlock (syncInit ?s2) = Num 1" if "bdb = []"
    using that b2 c2 by (simp add: syncInit_def blockDB_keys_def Let_def)
  have e2: "currentSyncBlock (syncInit ?s2) = Num (Max (set ns))"
    if "ns \<noteq> [] \<and> blockDB_keys bdb = map toString ns" for ns
  proof -
    from that have "length (blockDB_keys bdb) \<noteq> 0"
      by simp
    then show ?thesis
      using that b2 c2 maxBlockNumber_toString[of ns bdb]
      by (simp add: syncInit_def Let_def)
  qed
  from st e1 e2 show ?thesis by blast
qed



section \<open>A block request from an unknown address\<close>

text \<open>
  Claim C9. When the node is not requesting the chain and no open peer has the
  \<^verbatim>\<open>requestAddress\<close> of a \<^verbatim>\<open>REQUEST_BLOCK\<close> message, the handler throws a TypeError,
  whatever the requested block number is, and the state of the node, with the list of
  what it has sent, is unchanged: no block is sent.
\<close>

theorem request_block_unknown_peer_throws:
  "\<not> ENABLE_CHAIN_REQUEST s \<Longrightarrow> requestAddress \<notin> set (map address (opened s)) \<Longrightarrow>
   onMessage e opts (REQUEST_BLOCK n requestAddress) s = (Some TypeError, s)"
proof -
  assume a: "\<not> ENABLE_CHAIN_REQUEST s" and b: "requestAddress \<notin> set (map address (opened s))"
  have "find (\<lambda>n. address n = requestAddress) (opened s) = None"
    using b by (auto simp: find_None_iff)
  then show ?thesis
    using a by (simp add: onRequestBlock_def)
qed

text \<open>
  A node that stores block 1 answers the request of its peer for it, and throws on the
  same request from an address that is not among its peers.
\<close>

theorem request_block_unknown_peer_throws_witness:
  "onMessage exampleEnv (exampleOptions False False) (REQUEST_BLOCK (Num 1) ''ws://peer:3000'')
     (exampleNode False [(''1'', exampleBlock 1 ''g'' ''h1'')] []) =
     (None, (exampleNode False [(''1'', exampleBlock 1 ''g'' ''h1'')] [])
        \<lparr>effects := [Send 7 (SEND_BLOCK (exampleBlock 1 ''g'' ''h1''))]\<rparr>) \<and>
   onMessage exampleEnv (exampleOptions False False) (REQUEST_BLOCK (Num 1) ''ws://other:3000'')
     (exampleNode False [(''1'', exampleBlock 1 ''g'' ''h1'')] []) =
     (Some TypeError, exampleNode False [(''1'', exampleBlock 1 ''g'' ''h1'')] [])"
proof -
  have a: "\<not> ENABLE_CHAIN_REQUEST (exampleNode False [(''1'', exampleBlock 1 ''g'' ''h1'')] [])"
    by (simp add: exampleNode_def)
  have b: "''ws://other:3000''
      \<notin> set (map address (opened (exampleNode False [(''1'', exampleBlock 1 ''g'' ''h1'')] [])))"
    by (simp add: exampleNode_def)
  have p1: "parseInt ''1'' = Num 1"
    using parseInt_toString[of 1] by (simp add: toString_small)
  have served: "onMessage exampleEnv (exampleOptions False False)
      (REQUEST_BLOCK (Num 1) ''ws://peer:3000'')
      (exampleNode False [(''1'', exampleBlock 1 ''g'' ''h1'')] []) =
     (None, (exampleNode False [(''1'', exampleBlock 1 ''g'' ''h1'')] [])
        \<lparr>effects := [Send 7 (SEND_BLOCK (exampleBlock 1 ''g'' ''h1''))]\<rparr>)"
    by (simp add: onRequestBlock_def exampleNode_def maxBlockNumber_def blockDB_keys_def
        Math_max_def p1 blockDB_get_def toString_small Let_def)
  show ?thesis
    using served request_block_unknown_peer_throws[OF a b, of exampleEnv
        "exampleOptions False False" "Num 1"]
    by simp
qed

section \<open>Transactions submitted over RPC\<close>

text \<open>
  Claim C7. For a transaction object submitted to \<^verbatim>\<open>handleSendTransaction\<close>, the server
  first replies success, then broadcasts the transaction to every open peer, and only
  then calls \<^verbatim>\<open>addTransaction\<close>, which validates it and decides about the pool. The
  reply and the broadcast are the same whatever the imported functions, and so
  whatever the validity of the transaction.
\<close>

theorem rpc_send_replies_broadcasts_then_adds:
  "effects (handleSendTransaction e (TransactionObject tx) s) =
     effects s @ [Reply (RespondSuccess ''Transaction received and queued for processing'')]
       @ map (\<lambda>n. Send (socket n) (CREATE_TRANSACTION tx)) (opened s) @ [AddTransaction tx] \<and>
   transactionPool (chainInfo (handleSendTransaction e (TransactionObject tx) s)) =
     addTransaction e tx (transactionPool (chainInfo s)) (stateDB s) \<and>
   effects (handleSendTransaction e (TransactionObject tx) s) =
     effects (handleSendTransaction e' (TransactionObject tx) s)"
  by (simp add: handleSendTransaction_def sendTransaction_def sendMessage_def Let_def)

text \<open>
  A transaction that the sender cannot pay for is acknowledged and broadcast like any
  other.
\<close>

theorem rpc_send_replies_broadcasts_then_adds_witness:
  "\<not> isValid exampleEnv (exampleTx ''alice'' 1000 10 None 1) exampleState \<and>
   effects (handleSendTransaction exampleEnv
      (TransactionObject (exampleTx ''alice'' 1000 10 None 1)) (exampleNode False [] [])) =
     [Reply (RespondSuccess ''Transaction received and queued for processing''),
      Send 7 (CREATE_TRANSACTION (exampleTx ''alice'' 1000 10 None 1)),
      AddTransaction (exampleTx ''alice'' 1000 10 None 1)]"
proof -
  have v: "\<not> isValid exampleEnv (exampleTx ''alice'' 1000 10 None 1) exampleState"
    by (simp add: exampleEnv_def exampleTx_def exampleState_def contractGasOf_def)
  show ?thesis
    using v rpc_send_replies_broadcasts_then_adds[of exampleEnv
        "exampleTx ''alice'' 1000 10 None 1" "exampleNode False [] []" exampleEnv]
    by (simp add: exampleNode_def)
qed

section \<open>The mining loop of a node started with the chain request\<close>

lemma sendMessage_workerSends: "workerSends (sendMessage m ns s) = workerSends s"
  by (simp add: sendMessage_def workerSends_def)

lemma requestLoop_workerSends: "workerSends (requestLoop opts i s) = workerSends s"
  by (simp add: requestLoop_def workerSends_def)

lemma onMessage_workerSends: "workerSends (snd (onMessage e opts m s)) = workerSends s"
proof (cases m)
  case (NEW_BLOCK b)
  then show ?thesis
    by (simp add: onNewBlock_def Let_def sendMessage_def workerSends_def)
next
  case (CREATE_TRANSACTION tx)
  then show ?thesis
    by (simp add: onCreateTransaction_def sendMessage_def workerSends_def split: option.splits)
next
  case (REQUEST_BLOCK n a)
  then show ?thesis
    by (simp add: onRequestBlock_def Let_def workerSends_def split: option.splits)
next
  case (SEND_BLOCK b)
  then show ?thesis
    by (simp add: onSendBlock_def Let_def requestLoop_workerSends) (simp add: workerSends_def)
next
  case (HANDSHAKE a)
  then show ?thesis
    by (simp add: connect_frame)
qed

lemma onMined_workerSends: "workerSends (onMined e lg b s) = workerSends s"
  by (simp add: onMined_def Let_def sendMessage_def workerSends_def)

lemma handleSendTransaction_workerSends: "workerSends (handleSendTransaction e p s) = workerSends s"
  by (cases p) (simp_all add: handleSendTransaction_def sendTransaction_def Let_def
      sendMessage_def workerSends_def)

lemma onRequestTimer_workerSends: "workerSends (onRequestTimer opts s) = workerSends s"
proof (cases "pending s")
  case Nil
  then show ?thesis by (simp add: onRequestTimer_def)
next
  case (Cons i rest)
  then show ?thesis
    by (simp add: onRequestTimer_def requestLoop_workerSends) (simp add: workerSends_def)
qed

lemma loopMineTick_chain_request:
  "lm_ENABLE_CHAIN_REQUEST lm \<Longrightarrow>
     lm_ENABLE_CHAIN_REQUEST (fst (loopMineTick e c n (lm, s))) \<and>
     snd (loopMineTick e c n (lm, s)) = s"
  by (simp add: loopMineTick_def Let_def)

lemma step_idle: "idle ls \<Longrightarrow> idle (step e opts ls ev)"
proof -
  assume i: "idle ls"
  obtain l s where ls: "ls = (l, s)" by (cases ls)
  show ?thesis
  proof (cases ev)
    case (Message m)
    with i ls show ?thesis by (simp add: idle_def onMessage_workerSends)
  next
    case (Tick c n)
    with i ls show ?thesis
      by (cases l) (simp_all add: idle_def loopMineTick_chain_request)
  next
    case (Mined b)
    with i ls show ?thesis
      by (cases l) (simp_all add: idle_def onMined_workerSends)
  next
    case (SendTransactionRequest p)
    with i ls show ?thesis by (simp add: idle_def handleSendTransaction_workerSends)
  next
    case RequestTimer
    with i ls show ?thesis by (simp add: idle_def onRequestTimer_workerSends)
  qed
qed

lemma run_idle: "idle ls \<Longrightarrow> idle (run e opts evs ls)"
  unfolding run_def by (induction evs arbitrary: ls) (simp_all add: step_idle)

lemma syncInit_frame:
  "ENABLE_CHAIN_REQUEST (syncInit s) = ENABLE_CHAIN_REQUEST s \<and>
   workerSends (syncInit s) = workerSends s \<and> chainInfo (syncInit s) = chainInfo s"
  by (simp add: syncInit_def Let_def workerSends_def)

text \<open>
  Claim C8. When the node is started with \<^verbatim>\<open>ENABLE_CHAIN_REQUEST\<close> and \<^verbatim>\<open>ENABLE_MINING\<close>,
  \<^verbatim>\<open>startServer\<close> completes, and whatever happens afterwards (messages, among them a
  \<^verbatim>\<open>NEW_BLOCK\<close> that clears the node's \<^verbatim>\<open>ENABLE_CHAIN_REQUEST\<close>, runs of the mining
  interval, reports of a worker, RPC submissions, ends of request delays), no
  candidate block is ever sent to a worker: \<^verbatim>\<open>loopMine\<close> tests the value it was called
  with.
\<close>

theorem mining_never_dispatched_when_started_syncing:
  "ENABLE_MINING opts \<Longrightarrow> options_ENABLE_CHAIN_REQUEST opts \<Longrightarrow>
   \<exists>l s. startServer e opts sdb bdb = Inr (l, s) \<and>
     (\<forall>evs. workerSends (snd (run e opts evs (l, s))) = [])"
proof -
  assume m: "ENABLE_MINING opts" and cr: "options_ENABLE_CHAIN_REQUEST opts"
  let ?s0 = "initialNode e opts sdb bdb"
  let ?s2 = "foldl (\<lambda>s p. connect (MY_ADDRESS opts) p s) ?s0 (PEERS opts)"
  let ?l = "Some (loopMine (publicKey opts) (ENABLE_CHAIN_REQUEST (syncInit ?s2))
                        (ENABLE_LOGGING opts) (syncInit ?s2))"
  have lh: "loadHead e ?s0 = Inr ?s0"
    using cr by (simp add: loadHead_def initialNode_def)
  have st: "startServer e opts sdb bdb = Inr (?l, syncInit ?s2)"
    using m by (simp add: startServer_def lh Let_def)
  have c2: "ENABLE_CHAIN_REQUEST (syncInit ?s2)"
    using cr by (simp add: syncInit_frame connect_all_frame initialNode_def)
  have w2: "workerSends (syncInit ?s2) = []"
    by (simp add: syncInit_frame connect_all_frame) (simp add: initialNode_def workerSends_def)
  have "idle (?l, syncInit ?s2)"
    using c2 w2 by (simp add: idle_def loopMine_def)
  then have "workerSends (snd (run e opts evs (?l, syncInit ?s2))) = []" for evs
    using run_idle[of "(?l, syncInit ?s2)" e opts evs] by (simp add: idle_def)
  with st show ?thesis by blast
qed


text \<open>
  A node started with both options receives block 1 as a synchronisation block and
  block 2 as a new block, which clears its \<^verbatim>\<open>ENABLE_CHAIN_REQUEST\<close>; the two runs of the
  mining interval that follow still send nothing to the worker.
\<close>

lemma example_start:
  "startServer exampleEnv (exampleOptions True True) exampleState [] =
     Inr (Some \<lparr>lm_publicKey = ''miner'', lm_ENABLE_CHAIN_REQUEST = True,
                 lm_ENABLE_LOGGING = False, lm_length = 0, lm_mining = True\<rparr>,
          (initialNode exampleEnv (exampleOptions True True) exampleState [])
            \<lparr>pending := [0]\<rparr>)"
  by (simp add: startServer_def loadHead_def initialNode_def exampleOptions_def syncInit_def
      blockDB_keys_def loopMine_def exampleEnv_def exampleGenesis_def Let_def)

theorem mining_never_dispatched_when_started_syncing_witness:
  "ENABLE_MINING (exampleOptions True True) \<and>
   options_ENABLE_CHAIN_REQUEST (exampleOptions True True) \<and>
   \<not> ENABLE_CHAIN_REQUEST (snd (run exampleEnv (exampleOptions True True)
        [Message (SEND_BLOCK (exampleBlock 1 ''g'' ''h1'')),
         Message (NEW_BLOCK (exampleBlock 2 ''h1'' ''h2'')), Tick 10 11, Tick 20 21]
        (Some \<lparr>lm_publicKey = ''miner'', lm_ENABLE_CHAIN_REQUEST = True,
                lm_ENABLE_LOGGING = False, lm_length = 0, lm_mining = True\<rparr>,
         (initialNode exampleEnv (exampleOptions True True) exampleState [])
           \<lparr>pending := [0]\<rparr>))) \<and>
   workerSends (snd (run exampleEnv (exampleOptions True True)
        [Message (SEND_BLOCK (exampleBlock 1 ''g'' ''h1'')),
         Message (NEW_BLOCK (exampleBlock 2 ''h1'' ''h2'')), Tick 10 11, Tick 20 21]
        (Some \<lparr>lm_publicKey = ''miner'', lm_ENABLE_CHAIN_REQUEST = True,
                lm_ENABLE_LOGGING = False, lm_length = 0, lm_mining = True\<rparr>,
         (initialNode exampleEnv (exampleOptions True True) exampleState [])
           \<lparr>pending := [0]\<rparr>))) = []"
proof -
  have m: "ENABLE_MINING (exampleOptions True True)"
    and cr: "options_ENABLE_CHAIN_REQUEST (exampleOptions True True)"
    by (simp_all add: exampleOptions_def)
  from mining_never_dispatched_when_started_syncing[OF m cr, of exampleEnv exampleState "[]"]
  have quiet: "workerSends (snd (run exampleEnv (exampleOptions True True) evs
        (Some \<lparr>lm_publicKey = ''miner'', lm_ENABLE_CHAIN_REQUEST = True,
                lm_ENABLE_LOGGING = False, lm_length = 0, lm_mining = True\<rparr>,
         (initialNode exampleEnv (exampleOptions True True) exampleState [])
           \<lparr>pending := [0]\<rparr>))) = []" for evs
    unfolding example_start by simp
  have cleared: "\<not> ENABLE_CHAIN_REQUEST (snd (run exampleEnv (exampleOptions True True)
        [Message (SEND_BLOCK (exampleBlock 1 ''g'' ''h1'')),
         Message (NEW_BLOCK (exampleBlock 2 ''h1'' ''h2'')), Tick 10 11, Tick 20 21]
        (Some \<lparr>lm_publicKey = ''miner'', lm_ENABLE_CHAIN_REQUEST = True,
                lm_ENABLE_LOGGING = False, lm_length = 0, lm_mining = True\<rparr>,
         (initialNode exampleEnv (exampleOptions True True) exampleState [])
           \<lparr>pending := [0]\<rparr>)))"
    by (simp add: run_def onSendBlock_def requestLoop_def onNewBlock_def loopMineTick_def
        initialNode_def
        exampleOptions_def exampleEnv_def exampleBlock_def exampleGenesis_def sendMessage_def
        newTransactionPool_def Let_def)
  from m cr quiet cleared show ?thesis by blast
qed


section \<open>Time stamps of the pool\<close>

lemma distinctTimestamps_snoc:
  "distinctTimestamps e pool \<Longrightarrow> \<not> timestampUsed e tx pool \<Longrightarrow>
   distinctTimestamps e (pool @ [tx])"
  by (auto simp: distinctTimestamps_def timestampUsed_def list_ex_iff)

lemma distinctTimestamps_filter:
  "distinctTimestamps e pool \<Longrightarrow> distinctTimestamps e (filter P pool)"
  by (simp add: distinctTimestamps_def distinct_map_filter)

lemma onCreateTransaction_pool:
  "transactionPool (chainInfo (onCreateTransaction e tx s)) = transactionPool (chainInfo s) \<or>
   (\<not> timestampUsed e tx (transactionPool (chainInfo s)) \<and>
    transactionPool (chainInfo (onCreateTransaction e tx s)) = transactionPool (chainInfo s) @ [tx])"
  by (simp add: onCreateTransaction_def sendMessage_def split: option.splits)

lemma onNewBlock_pool:
  "transactionPool (chainInfo (onNewBlock e opts b s)) = transactionPool (chainInfo s) \<or>
   transactionPool (chainInfo (onNewBlock e opts b s)) =
     newTransactionPool e (changeState e b (stateDB s) (ENABLE_LOGGING opts))
       (transactionPool (chainInfo s))"
  by (simp add: onNewBlock_def sendMessage_def Let_def)

lemma onSendBlock_pool:
  "transactionPool (chainInfo (onSendBlock e opts b s)) = transactionPool (chainInfo s)"
  by (simp add: onSendBlock_def requestLoop_def Let_def)

lemma onRequestBlock_pool:
  "transactionPool (chainInfo (snd (onRequestBlock n a s))) = transactionPool (chainInfo s)"
  by (simp add: onRequestBlock_def Let_def split: option.splits)

lemma onMessage_distinctTimestamps:
  assumes "distinctTimestamps e (transactionPool (chainInfo s))"
  shows "distinctTimestamps e (transactionPool (chainInfo (snd (onMessage e opts m s))))"
proof (cases m)
  case (NEW_BLOCK b)
  with assms onNewBlock_pool[of e opts b s] show ?thesis
    by (auto simp: newTransactionPool_def distinctTimestamps_filter)
next
  case (CREATE_TRANSACTION tx)
  with assms onCreateTransaction_pool[of e tx s] show ?thesis
    by (auto simp: distinctTimestamps_snoc)
next
  case (REQUEST_BLOCK n a)
  with assms show ?thesis by (simp add: onRequestBlock_pool)
next
  case (SEND_BLOCK b)
  with assms show ?thesis by (simp add: onSendBlock_pool)
next
  case (HANDSHAKE a)
  with assms show ?thesis by (simp add: connect_frame)
qed

lemma loadHead_pool:
  "loadHead e s = Inr s' \<Longrightarrow> transactionPool (chainInfo s') = transactionPool (chainInfo s)"
  by (auto simp: loadHead_def Let_def split: if_splits option.splits)

lemma startServer_pool:
  assumes "startServer e opts sdb bdb = Inr (l, s)"
  shows "transactionPool (chainInfo s) = []"
proof -
  from assms obtain s1 where lh: "loadHead e (initialNode e opts sdb bdb) = Inr s1"
    and s: "s = syncInit (foldl (\<lambda>s p. connect (MY_ADDRESS opts) p s) s1 (PEERS opts))"
    by (auto simp: startServer_def Let_def split: sum.splits)
  have "transactionPool (chainInfo s1) = []"
    using loadHead_pool[OF lh] by (simp add: initialNode_def)
  then show ?thesis
    by (simp add: s syncInit_frame connect_all_frame)
qed

text \<open>
  Claim C10. If no two transactions of the pool have the same sender and the same time
  stamp, this is still so after any sequence of gossip messages: the handler of
  \<^verbatim>\<open>CREATE_TRANSACTION\<close> adds a transaction only when no pooled transaction of its sender
  has its time stamp, the handler of \<^verbatim>\<open>NEW_BLOCK\<close> only removes transactions, and the
  other handlers leave the pool alone. The pool of a started node is empty, so after
  any sequence of gossip messages the pool of a started node has no two transactions
  with the same sender and time stamp.
\<close>

theorem gossip_keeps_timestamps_distinct:
  "(distinctTimestamps e (transactionPool (chainInfo s)) \<longrightarrow>
      distinctTimestamps e (transactionPool (chainInfo (gossip e opts ms s)))) \<and>
   (startServer e opts sdb bdb = Inr (l, s0) \<longrightarrow>
      distinctTimestamps e (transactionPool (chainInfo (gossip e opts ms s0))))"
proof -
  have step: "distinctTimestamps e (transactionPool (chainInfo (gossip e opts ms s)))"
    if "distinctTimestamps e (transactionPool (chainInfo s))" for s
    using that unfolding gossip_def
    by (induction ms arbitrary: s) (simp_all add: onMessage_distinctTimestamps)
  have "distinctTimestamps e (transactionPool (chainInfo s0))"
    if "startServer e opts sdb bdb = Inr (l, s0)"
    using startServer_pool[OF that] by (simp add: distinctTimestamps_def)
  with step show ?thesis by blast
qed

text \<open>
  The second of three transactions of one sender repeats the time stamp of the first
  and is not added, in a node with a peer and in a node just started.
\<close>

lemma example_admission:
  "transactionPool (chainInfo (gossip exampleEnv (exampleOptions False False)
        [CREATE_TRANSACTION (exampleTx ''alice'' 1 10 None 1),
         CREATE_TRANSACTION (exampleTx ''alice'' 2 10 None 1),
         CREATE_TRANSACTION (exampleTx ''alice'' 2 10 None 2)]
        (exampleNode False [] []))) =
     [exampleTx ''alice'' 1 10 None 1, exampleTx ''alice'' 2 10 None 2]"
  by (simp add: gossip_def onCreateTransaction_def exampleNode_def exampleChainInfo_def
      exampleState_def exampleEnv_def exampleTx_def senderAddress_def poolBalance_def
      timestampUsed_def contractGasOf_def sendMessage_def)

lemma example_start_plain:
  "startServer exampleEnv (exampleOptions False False) exampleState [] =
     Inr (None, (initialNode exampleEnv (exampleOptions False False) exampleState [])
                  \<lparr>blockDB := [(''0'', exampleGenesis)]\<rparr>)"
  by (simp add: startServer_def loadHead_def initialNode_def exampleOptions_def syncInit_def
      blockDB_keys_def exampleEnv_def exampleGenesis_def toString_small Let_def)

lemma example_admission_started:
  "transactionPool (chainInfo (gossip exampleEnv (exampleOptions False False)
        [CREATE_TRANSACTION (exampleTx ''alice'' 1 10 None 1),
         CREATE_TRANSACTION (exampleTx ''alice'' 2 10 None 1),
         CREATE_TRANSACTION (exampleTx ''alice'' 2 10 None 2)]
        ((initialNode exampleEnv (exampleOptions False False) exampleState [])
                  \<lparr>blockDB := [(''0'', exampleGenesis)]\<rparr>))) =
     [exampleTx ''alice'' 1 10 None 1, exampleTx ''alice'' 2 10 None 2]"
  by (simp add: gossip_def onCreateTransaction_def initialNode_def exampleOptions_def
      exampleState_def exampleEnv_def exampleTx_def senderAddress_def poolBalance_def
      timestampUsed_def contractGasOf_def sendMessage_def)

theorem gossip_keeps_timestamps_distinct_witness:
  "distinctTimestamps exampleEnv (transactionPool (chainInfo (exampleNode False [] []))) \<and>
   distinctTimestamps exampleEnv
     (transactionPool (chainInfo (gossip exampleEnv (exampleOptions False False)
        [CREATE_TRANSACTION (exampleTx ''alice'' 1 10 None 1),
         CREATE_TRANSACTION (exampleTx ''alice'' 2 10 None 1),
         CREATE_TRANSACTION (exampleTx ''alice'' 2 10 None 2)]
        (exampleNode False [] [])))) \<and>
   transactionPool (chainInfo (gossip exampleEnv (exampleOptions False False)
        [CREATE_TRANSACTION (exampleTx ''alice'' 1 10 None 1),
         CREATE_TRANSACTION (exampleTx ''alice'' 2 10 None 1),
         CREATE_TRANSACTION (exampleTx ''alice'' 2 10 None 2)]
        (exampleNode False [] []))) =
     [exampleTx ''alice'' 1 10 None 1, exampleTx ''alice'' 2 10 None 2] \<and>
   distinctTimestamps exampleEnv
     (transactionPool (chainInfo (gossip exampleEnv (exampleOptions False False)
        [CREATE_TRANSACTION (exampleTx ''alice'' 1 10 None 1),
         CREATE_TRANSACTION (exampleTx ''alice'' 2 10 None 1),
         CREATE_TRANSACTION (exampleTx ''alice'' 2 10 None 2)]
        ((initialNode exampleEnv (exampleOptions False False) exampleState [])
                  \<lparr>blockDB := [(''0'', exampleGenesis)]\<rparr>))))"
proof -
  have h: "distinctTimestamps exampleEnv (transactionPool (chainInfo (exampleNode False [] [])))"
    by (simp add: distinctTimestamps_def exampleNode_def exampleChainInfo_def)
  note t = gossip_keeps_timestamps_distinct[of exampleEnv "exampleNode False [] []" "exampleOptions False False"
        "[CREATE_TRANSACTION (exampleTx ''alice'' 1 10 None 1),
          CREATE_TRANSACTION (exampleTx ''alice'' 2 10 None 1),
          CREATE_TRANSACTION (exampleTx ''alice'' 2 10 None 2)]"
        exampleState "[]" None
        "(initialNode exampleEnv (exampleOptions False False) exampleState [])
                  \<lparr>blockDB := [(''0'', exampleGenesis)]\<rparr>"]
  from t h example_start_plain example_admission show ?thesis
    by simp
qed

section \<open>Admission of a gossiped transaction\<close>

text \<open>What the loop of the handler computes, as a sum over the pool.\<close>

lemma foldl_poolBalance:
  "foldl (\<lambda>bal tx. if senderAddress e tx = a then bal - (amount tx + gas tx + g) else bal)
     b pool =
   b - sum_list (map (\<lambda>tx. amount tx + gas tx + g)
         (filter (\<lambda>tx. senderAddress e tx = a) pool))"
  by (induction pool arbitrary: b) simp_all

lemma poolBalance_sum:
  "poolBalance e transaction senderBalance pool =
     senderBalance - cost transaction
       - sum_list (map (\<lambda>tx. amount tx + gas tx + contractGasOf transaction)
           (filter (\<lambda>tx. senderAddress e tx = senderAddress e transaction) pool))"
  by (simp add: poolBalance_def foldl_poolBalance cost_def)

text \<open>
  The handler of \<^verbatim>\<open>CREATE_TRANSACTION\<close> of a node that is not requesting the chain adds
  the transaction exactly when it is valid, its sender is stored, the balance that the
  handler computes is not negative and the time stamp is not used by the sender in the
  pool; it then sends the transaction to every open peer.
\<close>

lemma onCreateTransaction_admits:
  assumes "\<not> ENABLE_CHAIN_REQUEST s"
  shows "onCreateTransaction e tx s =
     (if isValid e tx (stateDB s) \<and>
         (\<exists>acc. stateDB s (senderAddress e tx) = Some acc \<and>
            0 \<le> poolBalance e tx (balance acc) (transactionPool (chainInfo s))) \<and>
         \<not> timestampUsed e tx (transactionPool (chainInfo s))
      then s\<lparr>chainInfo := (chainInfo s)
               \<lparr>transactionPool := transactionPool (chainInfo s) @ [tx]\<rparr>,
             effects := effects s @ map (\<lambda>n. Send (socket n) (CREATE_TRANSACTION tx)) (opened s)\<rparr>
      else s)"
  using assms by (auto simp: onCreateTransaction_def sendMessage_def split: option.splits)

text \<open>
  Claim C1 on the code. The sender stores a balance of 100. A first transaction costing
  10 + 10 + 70 is admitted to the empty pool. A second one costing 10 + 10, valid by
  itself, leaves a projected balance of 100 - 20 - 90 = -10, so it must not be
  admitted. The handler subtracts the contract gas of the new transaction, 0, in place
  of the 70 of the pooled one, finds 100 - 20 - 20 = 60, admits the transaction and
  broadcasts it.
\<close>

theorem create_transaction_ignores_pool_contract_gas:
  "isValid exampleEnv (exampleTx ''alice'' 10 10 None 2) exampleState \<and>
   projectedBalance_spec exampleEnv (exampleTx ''alice'' 10 10 None 2) 100
     [exampleTx ''alice'' 10 10 (Some 70) 1] = - 10 \<and>
   gossip exampleEnv (exampleOptions False False)
     [CREATE_TRANSACTION (exampleTx ''alice'' 10 10 (Some 70) 1),
      CREATE_TRANSACTION (exampleTx ''alice'' 10 10 None 2)]
     (exampleNode False [] []) =
   (exampleNode False [] [])
      \<lparr>chainInfo := exampleChainInfo
          [exampleTx ''alice'' 10 10 (Some 70) 1, exampleTx ''alice'' 10 10 None 2],
       effects := [Send 7 (CREATE_TRANSACTION (exampleTx ''alice'' 10 10 (Some 70) 1)),
                   Send 7 (CREATE_TRANSACTION (exampleTx ''alice'' 10 10 None 2))]\<rparr>"
  by (simp add: gossip_def onCreateTransaction_def exampleNode_def exampleChainInfo_def
      exampleState_def exampleEnv_def exampleTx_def senderAddress_def poolBalance_def
      timestampUsed_def contractGasOf_def sendMessage_def projectedBalance_spec_def cost_def)


end
